theory Spec2Isabelle
  imports Complex_Main
begin

section \<open>Conventions of the embedding\<close>

text \<open>
  The development embeds the numeric and structural core of two generator scripts,
  \<^verbatim>\<open>scripts/astral_sky_demo.py\<close> and \<^verbatim>\<open>scripts/enrich_aec_gldf.py\<close>.

  \<^item> A Python \<^verbatim>\<open>float\<close> is modelled by the real number it denotes (type \<^typ>\<open>real\<close>):
    comparisons are exact; rounding and overflow of the binary format are not modelled.
    Division by zero, which Python reports as \<^verbatim>\<open>ZeroDivisionError\<close>, is a branch of
    the model.
  \<^item> A Python \<^verbatim>\<open>int\<close> is an \<^typ>\<open>int\<close>. A \<^verbatim>\<open>str\<close> is a \<^typ>\<open>string\<close>: the list of
    the bytes of its UTF-8 encoding, so \<^verbatim>\<open>s.encode('utf-8')\<close> is the identity. The string
    operations are modelled on ASCII.
  \<^item> Exceptions are values: a function that can raise returns \<open>error + 'a\<close>, with
    \<open>Inl\<close> for the exception.
  \<^item> What a function reads from its surroundings (the wall clock, the catalogue file,
    the input archive, the built-ins \<^verbatim>\<open>repr\<close>, \<^verbatim>\<open>float\<close> and \<^verbatim>\<open>int\<close> on text) is an
    explicit argument.
\<close>

datatype error = KeyError | ValueError | ZeroDivisionError | OverflowError

definition bind_error :: "error + 'a \<Rightarrow> ('a \<Rightarrow> error + 'b) \<Rightarrow> error + 'b" where
  "bind_error r f = (case r of Inl e \<Rightarrow> Inl e | Inr v \<Rightarrow> f v)"

text \<open>A list of computations run in order; the first exception leaves the loop.\<close>

fun sequence_error :: "(error + 'a) list \<Rightarrow> error + 'a list" where
  "sequence_error [] = Inr []"
| "sequence_error (r # rs) =
     bind_error r (\<lambda>v. bind_error (sequence_error rs) (\<lambda>vs. Inr (v # vs)))"

text \<open>Float division, \<^verbatim>\<open>a / b\<close>.\<close>

definition py_div :: "real \<Rightarrow> real \<Rightarrow> error + real" where
  "py_div a b = (if b = 0 then Inl ZeroDivisionError else Inr (a / b))"

text \<open>\<^verbatim>\<open>int(x)\<close> on a float truncates towards zero.\<close>

definition py_int :: "real \<Rightarrow> int" where
  "py_int x = (if 0 \<le> x then \<lfloor>x\<rfloor> else \<lceil>x\<rceil>)"

text \<open>\<^verbatim>\<open>range(start, stop, step)\<close> for a positive step.\<close>

definition py_range :: "int \<Rightarrow> int \<Rightarrow> int \<Rightarrow> int list" where
  "py_range start stop step =
     map (\<lambda>i. start + step * int i) [0 ..< nat ((stop - start + step - 1) div step)]"

text \<open>\<^verbatim>\<open>math.radians\<close>, \<^verbatim>\<open>math.degrees\<close>, and \<^verbatim>\<open>x % m\<close> on floats for a positive \<open>m\<close>.\<close>

definition radians :: "real \<Rightarrow> real" where
  "radians x = x * pi / 180"

definition degrees :: "real \<Rightarrow> real" where
  "degrees x = x * 180 / pi"

definition py_fmod :: "real \<Rightarrow> real \<Rightarrow> real" where
  "py_fmod x m = x - m * of_int \<lfloor>x / m\<rfloor>"

subsection \<open>Strings\<close>

definition ascii_lowercase :: string where
  "ascii_lowercase = ''abcdefghijklmnopqrstuvwxyz''"

definition ascii_uppercase :: string where
  "ascii_uppercase = ''ABCDEFGHIJKLMNOPQRSTUVWXYZ''"

definition ascii_digits :: string where
  "ascii_digits = ''0123456789''"

definition py_upper_char :: "char \<Rightarrow> char" where
  "py_upper_char c =
     (case map_of (zip ascii_lowercase ascii_uppercase) c of Some u \<Rightarrow> u | None \<Rightarrow> c)"

definition py_upper :: "string \<Rightarrow> string" where
  "py_upper s = map py_upper_char s"

definition py_lower_char :: "char \<Rightarrow> char" where
  "py_lower_char c =
     (case map_of (zip ascii_uppercase ascii_lowercase) c of Some l \<Rightarrow> l | None \<Rightarrow> c)"

definition py_lower :: "string \<Rightarrow> string" where
  "py_lower s = map py_lower_char s"

definition py_startswith :: "string \<Rightarrow> string \<Rightarrow> bool" where
  "py_startswith s p = (take (length p) s = p)"

text \<open>\<^verbatim>\<open>s.replace(a, b)\<close> for one-character \<open>a\<close> and any \<open>b\<close>.\<close>

definition py_replace_char :: "char \<Rightarrow> string \<Rightarrow> string \<Rightarrow> string" where
  "py_replace_char a b s = concat (map (\<lambda>c. if c = a then b else [c]) s)"

text \<open>
  \<^verbatim>\<open>s.strip()\<close>: the ASCII characters Python counts as white space are the codes 9 to 13,
  28 to 31 and 32.
\<close>

definition py_isspace :: "char \<Rightarrow> bool" where
  "py_isspace c = (let n = (of_char c :: nat) in (9 \<le> n \<and> n \<le> 13) \<or> (28 \<le> n \<and> n \<le> 32))"

definition py_strip :: "string \<Rightarrow> string" where
  "py_strip s = rev (dropWhile py_isspace (rev (dropWhile py_isspace s)))"

definition py_isdigit :: "char \<Rightarrow> bool" where
  "py_isdigit c = (c \<in> set ascii_digits)"

text \<open>\<^verbatim>\<open>str(n)\<close> for an int: decimal digits, a minus sign for a negative number.\<close>

fun str_nat :: "nat \<Rightarrow> string" where
  "str_nat n = (if n < 10 then [ascii_digits ! n] else str_nat (n div 10) @ [ascii_digits ! (n mod 10)])"

declare str_nat.simps [simp del]

definition py_str_int :: "int \<Rightarrow> string" where
  "py_str_int k = (if k < 0 then CHR ''-'' # str_nat (nat (- k)) else str_nat (nat k))"

text \<open>
  Fixed-point formatting \<^verbatim>\<open>f"{x:.nf}"\<close>: the decimal with \<open>n\<close> fractional digits nearest
  to \<open>x\<close>, ties to the even neighbour, the fraction padded with zeros.
\<close>

definition round_half_even :: "real \<Rightarrow> int" where
  "round_half_even x =
     (let f = \<lfloor>x\<rfloor>; d = x - of_int f in
      if d < 1 / 2 then f else if d > 1 / 2 then f + 1 else if even f then f else f + 1)"

definition zero_pad :: "nat \<Rightarrow> string \<Rightarrow> string" where
  "zero_pad n s = replicate (n - length s) CHR ''0'' @ s"

definition py_format_f :: "nat \<Rightarrow> real \<Rightarrow> string" where
  "py_format_f n x =
     (let q = nat (round_half_even (\<bar>x\<bar> * 10 ^ n));
          body = str_nat (q div 10 ^ n) @ (if n = 0 then [] else CHR ''.'' # zero_pad n (str_nat (q mod 10 ^ n)))
      in if x < 0 then CHR ''-'' # body else body)"

text \<open>\<^verbatim>\<open>" ".join(xs)\<close>.\<close>

fun py_join :: "string \<Rightarrow> string list \<Rightarrow> string" where
  "py_join sep [] = []"
| "py_join sep [x] = x"
| "py_join sep (x # y # ys) = x @ sep @ py_join sep (y # ys)"

section \<open>Stars and temperature estimation\<close>

text \<open>
  The dataclass \<^verbatim>\<open>Star\<close>. The field \<open>obj_id\<close> is not a dataclass field: it stands
  for the identity of the Python object, the number the built-in \<^verbatim>\<open>id(star)\<close> returns,
  which \<^verbatim>\<open>star_to_id\<close> reads.
\<close>

record Star =
  name :: string
  hip_id :: "int option"
  ra :: real
  dec :: real
  mag :: real
  spectral_type :: string
  color_index :: "real option"
  obj_id :: int

text \<open>The property \<^verbatim>\<open>Star.temperature\<close>.\<close>

definition temperature :: "Star \<Rightarrow> int" where
  "temperature s =
     (case color_index s of
        Some bv \<Rightarrow>
          (if bv < - 0.3 then 30000
           else if bv < 0.0 then py_int (10000 - bv * 10000)
           else if bv < 0.6 then py_int (7500 - bv * 5000)
           else if bv < 1.5 then py_int (6000 - (bv - 0.6) * 2500)
           else 3000)
      | None \<Rightarrow>
          (let spec = (if spectral_type s \<noteq> [] then py_upper (spectral_type s) else ''G2'') in
           if py_startswith spec ''O'' then 35000
           else if py_startswith spec ''B'' then 20000
           else if py_startswith spec ''A'' then 9000
           else if py_startswith spec ''F'' then 7000
           else if py_startswith spec ''G'' then 5500
           else if py_startswith spec ''K'' then 4500
           else if py_startswith spec ''M'' then 3200
           else 5500))"

text \<open>
  The temperature estimate as the specification words it: a table from the leading letter
  and a piecewise-linear function of the colour index.
\<close>

definition spec_letter_kelvin :: "char \<Rightarrow> int option" where
  "spec_letter_kelvin c =
     (if c = CHR ''O'' then Some 35000 else if c = CHR ''B'' then Some 20000
      else if c = CHR ''A'' then Some 9000 else if c = CHR ''F'' then Some 7000
      else if c = CHR ''G'' then Some 5500 else if c = CHR ''K'' then Some 4500
      else if c = CHR ''M'' then Some 3200 else None)"

definition spec_bv_kelvin :: "real \<Rightarrow> real" where
  "spec_bv_kelvin bv =
     (if bv < - 0.3 then 30000
      else if bv < 0 then 10000 - bv * 10000
      else if bv < 0.6 then 7500 - bv * 5000
      else if bv < 1.5 then 6000 - (bv - 0.6) * 2500
      else 3000)"

section \<open>Catalogue loader\<close>

text \<open>
  A row of \<^verbatim>\<open>csv.DictReader\<close> is a dictionary from column names to text. The catalogue
  resource is \<open>None\<close> when neither \<^verbatim>\<open>hygdata_v42.csv\<close> nor its gzipped form exists.
  The built-ins \<^verbatim>\<open>float(text)\<close> and \<^verbatim>\<open>int(text)\<close> are the arguments \<open>pfloat\<close> and \<open>pint\<close>
  (\<open>None\<close> where Python raises \<^verbatim>\<open>ValueError\<close>); \<open>new_id k\<close> is the identity of the
  \<open>k\<close>-th \<^verbatim>\<open>Star\<close> object created.
\<close>

type_synonym row = "string \<rightharpoonup> string"

definition row_get :: "row \<Rightarrow> string \<Rightarrow> string \<Rightarrow> string" where
  "row_get r k d = (case r k of Some v \<Rightarrow> v | None \<Rightarrow> d)"

definition row_item :: "row \<Rightarrow> string \<Rightarrow> error + string" where
  "row_item r k = (case r k of Some v \<Rightarrow> Inr v | None \<Rightarrow> Inl KeyError)"

definition py_parse :: "(string \<Rightarrow> 'a option) \<Rightarrow> string \<Rightarrow> error + 'a" where
  "py_parse p s = (case p s of Some v \<Rightarrow> Inr v | None \<Rightarrow> Inl ValueError)"

text \<open>
  The name argument of the constructor call,
  \<^verbatim>\<open>row.get('proper', '') or f"HIP {hip_id}" if hip_id else f"HYG {row['id']}"\<close>:
  the conditional expression binds weakest, so the proper name is read only when
  \<^verbatim>\<open>hip_id\<close> is neither \<^verbatim>\<open>None\<close> nor 0.
\<close>

definition row_name :: "row \<Rightarrow> int option \<Rightarrow> error + string" where
  "row_name r hip =
     (case hip of
        Some h \<Rightarrow>
          (if h \<noteq> 0 then
             Inr (let p = row_get r ''proper'' [] in if p \<noteq> [] then p else ''HIP '' @ py_str_int h)
           else bind_error (row_item r ''id'') (\<lambda>i. Inr (''HYG '' @ i)))
      | None \<Rightarrow> bind_error (row_item r ''id'') (\<lambda>i. Inr (''HYG '' @ i)))"

text \<open>
  The body of the \<^verbatim>\<open>try\<close> block for one row: \<open>Inr None\<close> is the \<^verbatim>\<open>continue\<close> of a
  row above the magnitude limit, \<open>Inr (Some star)\<close> the appended star.
\<close>

definition parse_row ::
  "(string \<Rightarrow> real option) \<Rightarrow> (string \<Rightarrow> int option) \<Rightarrow> real \<Rightarrow> int \<Rightarrow> row \<Rightarrow> error + Star option" where
  "parse_row pfloat pint mag_limit oid r =
     bind_error (row_item r ''mag'') (\<lambda>mag_text.
     bind_error (py_parse pfloat mag_text) (\<lambda>m.
     if m > mag_limit then Inr None
     else
       let ci = row_get r ''ci'' [] in
       bind_error (if ci \<noteq> [] then bind_error (py_parse pfloat ci) (\<lambda>v. Inr (Some v)) else Inr None) (\<lambda>cidx.
       let hip = row_get r ''hip'' [] in
       bind_error (if hip \<noteq> [] then bind_error (py_parse pint hip) (\<lambda>v. Inr (Some v)) else Inr None) (\<lambda>hid.
       bind_error (row_name r hid) (\<lambda>nm.
       bind_error (row_item r ''ra'') (\<lambda>ra_text.
       bind_error (py_parse pfloat ra_text) (\<lambda>ra_hours.
       bind_error (row_item r ''dec'') (\<lambda>dec_text.
       bind_error (py_parse pfloat dec_text) (\<lambda>d.
       Inr (Some \<lparr>name = nm, hip_id = hid, ra = ra_hours * 15.0, dec = d, mag = m,
                  spectral_type = row_get r ''spect'' [], color_index = cidx, obj_id = oid\<rparr>))))))))))"

text \<open>
  The loop over the rows; \<open>k\<close> counts the stars created so far. The handler
  \<^verbatim>\<open>except (ValueError, KeyError): continue\<close> skips the row; any other exception would
  leave the function.
\<close>

fun load_rows ::
  "(string \<Rightarrow> real option) \<Rightarrow> (string \<Rightarrow> int option) \<Rightarrow> (nat \<Rightarrow> int) \<Rightarrow> real \<Rightarrow> nat \<Rightarrow> row list
     \<Rightarrow> error + Star list" where
  "load_rows pfloat pint new_id mag_limit k [] = Inr []"
| "load_rows pfloat pint new_id mag_limit k (r # rs) =
     (case parse_row pfloat pint mag_limit (new_id k) r of
        Inr (Some s) \<Rightarrow> bind_error (load_rows pfloat pint new_id mag_limit (Suc k) rs) (\<lambda>stars. Inr (s # stars))
      | Inr None \<Rightarrow> load_rows pfloat pint new_id mag_limit k rs
      | Inl ValueError \<Rightarrow> load_rows pfloat pint new_id mag_limit k rs
      | Inl KeyError \<Rightarrow> load_rows pfloat pint new_id mag_limit k rs
      | Inl e \<Rightarrow> Inl e)"

text \<open>The table \<^verbatim>\<open>BRIGHT_STARS\<close> of \<^verbatim>\<open>get_fallback_stars\<close>.\<close>

definition BRIGHT_STARS :: "(string \<times> real \<times> real \<times> real \<times> string \<times> real) list" where
  "BRIGHT_STARS =
     [(''Sirius'', 101.287, - 16.716, - 1.46, ''A1V'', 0.00),
      (''Canopus'', 95.988, - 52.696, - 0.74, ''F0Ib'', 0.15),
      (''Arcturus'', 213.915, 19.182, - 0.05, ''K1.5III'', 1.23),
      (''Vega'', 279.235, 38.784, 0.03, ''A0V'', 0.00),
      (''Capella'', 79.172, 45.998, 0.08, ''G5III'', 0.80),
      (''Rigel'', 78.634, - 8.202, 0.13, ''B8Ia'', - 0.03),
      (''Procyon'', 114.825, 5.225, 0.34, ''F5IV-V'', 0.42),
      (''Betelgeuse'', 88.793, 7.407, 0.42, ''M1Ia'', 1.85),
      (''Altair'', 297.696, 8.868, 0.77, ''A7V'', 0.22),
      (''Aldebaran'', 68.980, 16.509, 0.85, ''K5III'', 1.54),
      (''Antares'', 247.352, - 26.432, 0.96, ''M1Ib'', 1.83),
      (''Spica'', 201.298, - 11.161, 0.97, ''B1V'', - 0.23),
      (''Pollux'', 116.329, 28.026, 1.14, ''K0III'', 1.00),
      (''Deneb'', 310.358, 45.280, 1.25, ''A2Ia'', 0.09),
      (''Polaris'', 37.954, 89.264, 2.02, ''F7Ib'', 0.60)]"

definition get_fallback_stars :: "(nat \<Rightarrow> int) \<Rightarrow> Star list" where
  "get_fallback_stars new_id =
     map (\<lambda>(k, (nm, r, d, m, spec, bv)).
            \<lparr>name = nm, hip_id = None, ra = r, dec = d, mag = m,
             spectral_type = spec, color_index = Some bv, obj_id = new_id k\<rparr>)
         (enumerate 0 BRIGHT_STARS)"

text \<open>\<^verbatim>\<open>load_hyg_catalogue(mag_limit)\<close>, and \<^verbatim>\<open>get_stars\<close>, which only calls it.\<close>

definition load_hyg_catalogue ::
  "(string \<Rightarrow> real option) \<Rightarrow> (string \<Rightarrow> int option) \<Rightarrow> (nat \<Rightarrow> int) \<Rightarrow> row list option \<Rightarrow> real
     \<Rightarrow> error + Star list" where
  "load_hyg_catalogue pfloat pint new_id catalogue mag_limit =
     (case catalogue of
        None \<Rightarrow> Inr (get_fallback_stars new_id)
      | Some rows \<Rightarrow> load_rows pfloat pint new_id mag_limit 0 rows)"

definition get_stars ::
  "(string \<Rightarrow> real option) \<Rightarrow> (string \<Rightarrow> int option) \<Rightarrow> (nat \<Rightarrow> int) \<Rightarrow> row list option \<Rightarrow> real
     \<Rightarrow> error + Star list" where
  "get_stars pfloat pint new_id catalogue mag_limit = load_hyg_catalogue pfloat pint new_id catalogue mag_limit"

section \<open>Identifiers from names\<close>

text \<open>
  \<^verbatim>\<open>star_to_id\<close>. The pattern \<^verbatim>\<open>[^a-z0-9_]\<close> deletes every character outside the three
  classes; \<^verbatim>\<open>star.hip_id or id(star)\<close> is the Hipparcos number unless it is \<^verbatim>\<open>None\<close>
  or 0.
\<close>

definition star_to_id :: "Star \<Rightarrow> string" where
  "star_to_id star =
     (let nm = py_strip (py_lower (name star));
          kept = filter (\<lambda>c. c \<in> set (ascii_lowercase @ ascii_digits @ ''_''))
                   (py_replace_char CHR ''-'' ''_'' (py_replace_char CHR '' '' ''_'' nm));
          safe_name = (if kept \<noteq> [] \<and> py_isdigit (hd kept) then ''star_'' @ kept else kept)
      in if safe_name \<noteq> [] then safe_name
         else ''star_'' @ py_str_int
                (case hip_id star of
                   Some h \<Rightarrow> if h \<noteq> 0 then h else obj_id star
                 | None \<Rightarrow> obj_id star))"

section \<open>Blackbody spectrum of a star\<close>

text \<open>The constants of \<^verbatim>\<open>generate_star_spectrum\<close>: \<^verbatim>\<open>6.626e-34\<close>, \<^verbatim>\<open>3e8\<close> and \<^verbatim>\<open>1.381e-23\<close>.\<close>

definition planck_h :: real where
  "planck_h = 6.626 / 10 ^ 34"

definition light_c :: real where
  "light_c = 3 * 10 ^ 8"

definition boltzmann_k :: real where
  "boltzmann_k = 1.381 / 10 ^ 23"

text \<open>
  The body of the \<^verbatim>\<open>try\<close> block for one wavelength. Each of the three divisions can
  raise \<^verbatim>\<open>ZeroDivisionError\<close>.
\<close>

definition planck_bin :: "int \<Rightarrow> int \<Rightarrow> error + real" where
  "planck_bin temp wl_nm =
     (let wl_m = of_int wl_nm * (1 / 10 ^ 9) in
      bind_error (py_div (planck_h * light_c) (wl_m * boltzmann_k * of_int temp)) (\<lambda>exponent.
        if exponent > 700 then Inr 0
        else bind_error (py_div 1 (wl_m ^ 5)) (\<lambda>a. py_div a (exp exponent - 1))))"

text \<open>The handler \<^verbatim>\<open>except (OverflowError, ZeroDivisionError): intensity = 0.0\<close>.\<close>

definition star_intensity :: "int \<Rightarrow> int \<Rightarrow> error + real" where
  "star_intensity temp wl_nm =
     (case planck_bin temp wl_nm of
        Inl OverflowError \<Rightarrow> Inr 0
      | Inl ZeroDivisionError \<Rightarrow> Inr 0
      | Inl e \<Rightarrow> Inl e
      | Inr v \<Rightarrow> Inr v)"

fun star_bins :: "int \<Rightarrow> int list \<Rightarrow> error + (int \<times> real) list" where
  "star_bins temp [] = Inr []"
| "star_bins temp (wl_nm # wls) =
     bind_error (star_intensity temp wl_nm) (\<lambda>intensity.
     bind_error (star_bins temp wls) (\<lambda>rest. Inr ((wl_nm, intensity) # rest)))"

text \<open>
  The normalisation
  \<^verbatim>\<open>max_intensity = max(i for _, i in spectrum) if spectrum else 1.0\<close> followed by the
  guarded division; it is the same in both spectrum generators.
\<close>

definition normalize_spectrum :: "(int \<times> real) list \<Rightarrow> (int \<times> real) list" where
  "normalize_spectrum spectrum =
     (let max_intensity = (if spectrum \<noteq> [] then Max (set (map snd spectrum)) else 1) in
      if max_intensity > 0 then map (\<lambda>(wl, i). (wl, i / max_intensity)) spectrum else spectrum)"

definition generate_star_spectrum :: "int \<Rightarrow> error + (int \<times> real) list" where
  "generate_star_spectrum temp =
     bind_error (star_bins temp (py_range 380 781 5)) (\<lambda>spectrum. Inr (normalize_spectrum spectrum))"

section \<open>Photometric file of a star\<close>

text \<open>
  The wall clock as \<^verbatim>\<open>datetime.now()\<close> returns it, and \<^verbatim>\<open>strftime("%Y-%m-%d")\<close> (for
  years of four digits).
\<close>

record datetime =
  dt_year :: nat
  dt_month :: nat
  dt_day :: nat
  dt_hour :: nat
  dt_minute :: nat
  dt_second :: nat

definition strftime_ymd :: "datetime \<Rightarrow> string" where
  "strftime_ymd t =
     zero_pad 4 (str_nat (dt_year t)) @ ''-'' @ zero_pad 2 (str_nat (dt_month t)) @ ''-'' @
     zero_pad 2 (str_nat (dt_day t))"

text \<open>
  The f-string that \<^verbatim>\<open>generate_tm33_for_star\<close> returns, line by line. \<open>repr_float\<close> is
  Python's conversion of a float to text in \<^verbatim>\<open>{star.mag}\<close>; \<open>now1\<close> and \<open>now2\<close> are the
  two readings of the clock, for \<^verbatim>\<open>ReportDate\<close> and \<^verbatim>\<open>DocumentCreationDate\<close>.
\<close>

definition tm33_document ::
  "(real \<Rightarrow> string) \<Rightarrow> datetime \<Rightarrow> datetime \<Rightarrow> Star \<Rightarrow> int \<Rightarrow> string \<Rightarrow> string \<Rightarrow> string \<Rightarrow> string" where
  \<open>tm33_document repr_float now1 now2 star temp intensity_data wavelengths vals =
       ''<?xml version="1.0" encoding="UTF-8"?>\<newline>'' @
       ''<!--\<newline>'' @
       ''  Stellar Photometry - '' @ name star @ ''\<newline>'' @
       ''  Spectral Type: '' @ spectral_type star @ ''\<newline>'' @
       ''  Temperature: '' @ py_str_int temp @ ''K\<newline>'' @
       ''  Magnitude: '' @ repr_float (mag star) @ ''\<newline>'' @
       ''\<newline>'' @
       ''  Generated for Astral Sky Demo - Tribute to Astrophysics\<newline>'' @
       ''-->\<newline>'' @
       ''<IESTM33-22>\<newline>'' @
       ''    <Version>1.1</Version>\<newline>'' @
       ''    <Header>\<newline>'' @
       ''        <Manufacturer>Astral Sky Demo</Manufacturer>\<newline>'' @
       ''        <CatalogNumber>'' @ py_replace_char CHR '' '' ''_'' (name star) @ ''</CatalogNumber>\<newline>'' @
       ''        <Description>Star: '' @ name star @ '' ('' @ spectral_type star @ '')</Description>\<newline>'' @
       ''        <Laboratory>Stellar Photometry Generator</Laboratory>\<newline>'' @
       ''        <ReportNumber>STAR-'' @ py_replace_char CHR '' '' ''-'' (name star) @ ''</ReportNumber>\<newline>'' @
       ''        <ReportDate>'' @ strftime_ymd now1 @ ''</ReportDate>\<newline>'' @
       ''        <DocumentCreator>astral_sky_demo.py</DocumentCreator>\<newline>'' @
       ''        <DocumentCreationDate>'' @ strftime_ymd now2 @ ''</DocumentCreationDate>\<newline>'' @
       ''    </Header>\<newline>'' @
       ''    <Luminaire>\<newline>'' @
       ''        <Dimensions>\<newline>'' @
       ''            <Length>0</Length>\<newline>'' @
       ''            <Width>0</Width>\<newline>'' @
       ''            <Height>0</Height>\<newline>'' @
       ''        </Dimensions>\<newline>'' @
       ''        <Mounting>Celestial</Mounting>\<newline>'' @
       ''        <NumEmitters>1</NumEmitters>\<newline>'' @
       ''    </Luminaire>\<newline>'' @
       ''    <Emitter>\<newline>'' @
       ''        <ID>star-'' @ py_replace_char CHR '' '' ''-'' (py_lower (name star)) @ ''</ID>\<newline>'' @
       ''        <Description>'' @ name star @ '' - '' @ spectral_type star @ '' star</Description>\<newline>'' @
       ''        <CatalogNumber>'' @ name star @ ''</CatalogNumber>\<newline>'' @
       ''        <Quantity>1</Quantity>\<newline>'' @
       ''        <RatedLumens>'' @ py_str_int (py_int (10 powr ((0 - mag star) / 2.5) * 1000)) @ ''</RatedLumens>\<newline>'' @
       ''        <InputWattage>0</InputWattage>\<newline>'' @
       ''        <FixedCCT>'' @ py_str_int temp @ ''</FixedCCT>\<newline>'' @
       ''        <Duv>0.000</Duv>\<newline>'' @
       ''        <ColorRendering>\<newline>'' @
       ''            <Ra>100</Ra>\<newline>'' @
       ''        </ColorRendering>\<newline>'' @
       ''        <LuminousData>\<newline>'' @
       ''            <PhotometryType>CIE _ C</PhotometryType>\<newline>'' @
       ''            <Metric>Luminous</Metric>\<newline>'' @
       ''            <SymmType>Symm _ Full</SymmType>\<newline>'' @
       ''            <Multiplier>1.0</Multiplier>\<newline>'' @
       intensity_data @ ''        </LuminousData>\<newline>'' @
       ''        <SpectralDistribution>\<newline>'' @
       ''            <Wavelengths>'' @ wavelengths @ ''</Wavelengths>\<newline>'' @
       ''            <Values>'' @ vals @ ''</Values>\<newline>'' @
       ''        </SpectralDistribution>\<newline>'' @
       ''    </Emitter>\<newline>'' @
       ''</IESTM33-22>\<newline>''\<close>

text \<open>
  \<^verbatim>\<open>generate_tm33_for_star\<close>: a point source, all intensity at \<^verbatim>\<open>gamma = 0\<close>.
\<close>

definition star_intensity_data :: string where
  \<open>star_intensity_data =
     concat (map (\<lambda>gamma.
        ''            <IntensityData horz="0" vert="'' @ py_str_int gamma @ ''">'' @
        py_format_f 1 (if gamma = 0 then 1000.0 else 0.0) @ ''</IntensityData>\<newline>'')
       (py_range 0 91 5))\<close>

definition generate_tm33_for_star ::
  "(real \<Rightarrow> string) \<Rightarrow> datetime \<Rightarrow> datetime \<Rightarrow> Star \<Rightarrow> error + string" where
  "generate_tm33_for_star repr_float now1 now2 star =
     (let temp = temperature star in
      bind_error (generate_star_spectrum temp) (\<lambda>spectrum.
      let wavelengths = py_join '' '' (map (\<lambda>(wl, _). py_str_int wl) spectrum);
          vals = py_join '' '' (map (\<lambda>(_, v). py_format_f 4 v) spectrum)
      in Inr (tm33_document repr_float now1 now2 star temp star_intensity_data wavelengths vals)))"

section \<open>Horizon coordinates\<close>

text \<open>
  \<^verbatim>\<open>calculate_alt_az\<close>, the branch taken when astropy is not installed. The observation
  time enters only through \<^verbatim>\<open>(time - j2000).total_seconds()\<close>, which is the argument
  \<open>secs\<close>. The division for \<^verbatim>\<open>cos_az\<close> has no guard.
\<close>

definition calculate_alt_az :: "Star \<Rightarrow> real \<Rightarrow> real \<Rightarrow> real \<Rightarrow> error + real \<times> real" where
  "calculate_alt_az star lat lng secs =
     (let ra_rad = radians (ra star);
          dec_rad = radians (dec star);
          lat_rad = radians lat;
          days_since_j2000 = secs / 86400.0;
          lst_deg = py_fmod (280.46 + 360.9856474 * days_since_j2000 + lng) 360;
          lst_rad = radians lst_deg;
          ha_rad = lst_rad - ra_rad;
          sin_alt = sin dec_rad * sin lat_rad + cos dec_rad * cos lat_rad * cos ha_rad;
          alt = degrees (arcsin (max (- 1) (min 1 sin_alt)))
      in bind_error (py_div (sin dec_rad - sin lat_rad * sin_alt) (cos lat_rad * cos (radians alt)))
           (\<lambda>cos_az.
              let cos_az = max (- 1) (min 1 cos_az);
                  az = degrees (arccos cos_az);
                  az = (if sin ha_rad > 0 then 360 - az else az)
              in Inr (alt, az)))"

section \<open>The product document of the sky\<close>

text \<open>
  The document \<^verbatim>\<open>product.xml\<close> is modelled by its elements. Each record stands for one
  XML element that a template of \<^verbatim>\<open>generate_gldf_for_sky\<close> writes, and its fields are the
  values the template splices in: the \<^verbatim>\<open>id\<close> attribute, the reference attributes, and
  the contents.
\<close>

record gldf_file =
  file_id :: string
  file_content_type :: string
  file_type :: string
  file_name :: string

record gldf_photometry =
  photometry_id :: string
  photometry_file_ref :: string

record gldf_light_source =
  light_source_id :: string
  light_source_name :: string
  light_source_spectral_type :: string
  light_source_mag :: real
  light_source_cct :: int

record gldf_emitter =
  emitter_id :: string
  emitter_name :: string
  emitter_photometry_ref :: string
  emitter_light_source_ref :: string
  rated_luminous_flux :: int

record gldf_variant =
  variant_id :: string
  variant_name :: string
  variant_alt :: real
  variant_az :: real
  variant_mag :: real
  variant_ra :: real
  variant_dec :: real
  variant_spectral_type :: string

record product_document =
  doc_files :: "gldf_file list"
  doc_photometries :: "gldf_photometry list"
  doc_light_sources :: "gldf_light_source list"
  doc_emitters :: "gldf_emitter list"
  doc_variants :: "gldf_variant list"

text \<open>
  The loop that fills the dictionary \<^verbatim>\<open>tm33_files\<close>: a later star with the same
  identifier replaces the entry of an earlier one. \<open>clock\<close> gives the successive readings
  of the wall clock; the \<open>k\<close>-th star reads it twice.
\<close>

fun build_tm33_files ::
  "(real \<Rightarrow> string) \<Rightarrow> (nat \<Rightarrow> datetime) \<Rightarrow> nat \<Rightarrow> (Star \<times> real \<times> real) list
     \<Rightarrow> (string \<rightharpoonup> string \<times> string) \<Rightarrow> error + (string \<rightharpoonup> string \<times> string)" where
  "build_tm33_files repr_float clock k [] tm33_files = Inr tm33_files"
| "build_tm33_files repr_float clock k ((star, alt, az) # rest) tm33_files =
     (let star_id = star_to_id star;
          filename = star_id @ ''.iesxml'' in
      bind_error (generate_tm33_for_star repr_float (clock (2 * k)) (clock (2 * k + 1)) star) (\<lambda>content.
        build_tm33_files repr_float clock (Suc k) rest (tm33_files(star_id \<mapsto> (filename, content)))))"

text \<open>The five section loops, lines 521 to 581.\<close>

definition files_section ::
  "(string \<rightharpoonup> string \<times> string) \<Rightarrow> (Star \<times> string) list \<Rightarrow> error + gldf_file list" where
  "files_section tm33_files star_ids =
     sequence_error (map (\<lambda>(star, star_id).
        case tm33_files star_id of
          None \<Rightarrow> Inl KeyError
        | Some (filename, _) \<Rightarrow>
            Inr \<lparr>file_id = ''file_'' @ star_id, file_content_type = ''ldc/iesxml'',
                 file_type = ''localFileName'', file_name = filename\<rparr>) star_ids)"

definition photometries_section :: "(Star \<times> string) list \<Rightarrow> gldf_photometry list" where
  "photometries_section star_ids =
     map (\<lambda>(star, star_id).
        \<lparr>photometry_id = ''photometry_'' @ star_id, photometry_file_ref = ''file_'' @ star_id\<rparr>) star_ids"

definition light_sources_section ::
  "(Star \<times> real \<times> real) list \<Rightarrow> (Star \<times> string) list \<Rightarrow> gldf_light_source list" where
  "light_sources_section visible_stars star_ids =
     map (\<lambda>((star, _, _), (_, star_id)).
        \<lparr>light_source_id = ''lightsource_'' @ star_id, light_source_name = name star,
         light_source_spectral_type = spectral_type star, light_source_mag = mag star,
         light_source_cct = temperature star\<rparr>) (zip visible_stars star_ids)"

definition emitters_section ::
  "(Star \<times> real \<times> real) list \<Rightarrow> (Star \<times> string) list \<Rightarrow> gldf_emitter list" where
  "emitters_section visible_stars star_ids =
     map (\<lambda>((star, _, _), (_, star_id)).
        \<lparr>emitter_id = ''emitter_'' @ star_id, emitter_name = name star,
         emitter_photometry_ref = ''photometry_'' @ star_id,
         emitter_light_source_ref = ''lightsource_'' @ star_id,
         rated_luminous_flux = min (py_int (10 powr ((0 - mag star) / 2.5) * 1000)) 2000000000\<rparr>)
       (zip visible_stars star_ids)"

definition variants_section ::
  "(Star \<times> real \<times> real) list \<Rightarrow> (Star \<times> string) list \<Rightarrow> gldf_variant list" where
  "variants_section visible_stars star_ids =
     map (\<lambda>((star, alt, az), (_, star_id)).
        \<lparr>variant_id = ''variant_'' @ star_id, variant_name = name star,
         variant_alt = alt, variant_az = az, variant_mag = mag star,
         variant_ra = ra star, variant_dec = dec star,
         variant_spectral_type = spectral_type star\<rparr>) (zip visible_stars star_ids)"

text \<open>
  The template of \<^verbatim>\<open>product.xml\<close>, lines 583 to 628: it splices the five sections into
  the document as they are.
\<close>

definition product_xml ::
  "gldf_file list \<Rightarrow> gldf_photometry list \<Rightarrow> gldf_light_source list \<Rightarrow> gldf_emitter list
     \<Rightarrow> gldf_variant list \<Rightarrow> product_document" where
  "product_xml files_xml photometries_xml light_sources_xml emitters_xml variants_xml =
     \<lparr>doc_files = files_xml, doc_photometries = photometries_xml,
      doc_light_sources = light_sources_xml, doc_emitters = emitters_xml,
      doc_variants = variants_xml\<rparr>"

text \<open>
  The composition of the document from the visible stars, lines 511 to 628 of
  \<^verbatim>\<open>generate_gldf_for_sky\<close>.
\<close>

definition compose_product_xml ::
  "(real \<Rightarrow> string) \<Rightarrow> (nat \<Rightarrow> datetime) \<Rightarrow> (Star \<times> real \<times> real) list \<Rightarrow> error + product_document" where
  "compose_product_xml repr_float clock visible_stars =
     bind_error (build_tm33_files repr_float clock 0 visible_stars Map.empty) (\<lambda>tm33_files.
     let star_ids = map (\<lambda>(star, _, _). (star, star_to_id star)) visible_stars in
     bind_error (files_section tm33_files star_ids) (\<lambda>files_xml.
     Inr (product_xml files_xml (photometries_section star_ids)
            (light_sources_section visible_stars star_ids)
            (emitters_section visible_stars star_ids)
            (variants_section visible_stars star_ids))))"

text \<open>The loop that keeps the stars above the horizon, lines 502 to 507.\<close>

fun visible_stars_of :: "Star list \<Rightarrow> real \<Rightarrow> real \<Rightarrow> real \<Rightarrow> error + (Star \<times> real \<times> real) list" where
  "visible_stars_of [] lat lng secs = Inr []"
| "visible_stars_of (star # stars) lat lng secs =
     bind_error (calculate_alt_az star lat lng secs) (\<lambda>(alt, az).
     bind_error (visible_stars_of stars lat lng secs) (\<lambda>rest.
     Inr (if alt > 0 then (star, alt, az) # rest else rest)))"

text \<open>
  \<^verbatim>\<open>generate_gldf_for_sky\<close> up to the document it packs; the archive, the JSON summary and
  the LISP drawing are not modelled.
\<close>

definition generate_gldf_for_sky ::
  "(string \<Rightarrow> real option) \<Rightarrow> (string \<Rightarrow> int option) \<Rightarrow> (nat \<Rightarrow> int) \<Rightarrow> row list option
     \<Rightarrow> (real \<Rightarrow> string) \<Rightarrow> (nat \<Rightarrow> datetime)
     \<Rightarrow> real \<Rightarrow> real \<Rightarrow> real \<Rightarrow> real \<Rightarrow> error + product_document" where
  "generate_gldf_for_sky pfloat pint new_id catalogue repr_float clock lat lng secs mag_limit =
     bind_error (get_stars pfloat pint new_id catalogue mag_limit) (\<lambda>stars.
     bind_error (visible_stars_of stars lat lng secs) (\<lambda>visible_stars.
     compose_product_xml repr_float clock visible_stars))"

text \<open>
  Reference closure of a document: every reference attribute names an element of the
  document of the kind it refers to.
\<close>

definition reference_closed :: "product_document \<Rightarrow> bool" where
  "reference_closed d \<longleftrightarrow>
     (\<forall>e \<in> set (doc_emitters d).
        emitter_photometry_ref e \<in> photometry_id ` set (doc_photometries d)
        \<and> emitter_light_source_ref e \<in> light_source_id ` set (doc_light_sources d))
     \<and> (\<forall>p \<in> set (doc_photometries d). photometry_file_ref p \<in> file_id ` set (doc_files d))"

section \<open>Parametric LED spectrum and photometric file\<close>

text \<open>The configuration lists of \<^verbatim>\<open>enrich_aec_gldf.py\<close>.\<close>

definition WATTAGES :: "int list" where
  "WATTAGES = [30, 50, 75, 100, 150, 200]"

definition CCTS :: "int list" where
  "CCTS = [3000, 3500, 4000, 5000, 6500]"

text \<open>
  One pass of the loop of \<^verbatim>\<open>generate_fake_spectrum\<close>. The divisors \<^verbatim>\<open>2 * 15 ** 2\<close> and
  \<^verbatim>\<open>2 * 40 ** 2\<close> are non-zero constants; \<^verbatim>\<open>2 * phosphor_width ** 2\<close> depends on the
  colour temperature.
\<close>

definition led_intensity :: "int \<Rightarrow> int \<Rightarrow> error + real" where
  "led_intensity cct wl =
     (let blue_peak = 0.6 * exp (- ((of_int wl - 450) ^ 2) / (2 * 15 ^ 2));
          phosphor_peak_wl = 580 - of_int (cct - 4000) * 0.02;
          phosphor_width = 80 + of_int (cct - 3000) * 0.01 in
      bind_error (py_div (- ((of_int wl - phosphor_peak_wl) ^ 2)) (2 * phosphor_width ^ 2)) (\<lambda>q.
      let phosphor = 0.8 * exp q;
          red_phosphor =
            (if cct \<le> 4000
             then (of_int (4000 - cct) / 3000) * 0.4 * exp (- ((of_int wl - 620) ^ 2) / (2 * 40 ^ 2))
             else 0);
          intensity = blue_peak + phosphor + red_phosphor;
          intensity = intensity * (1 + 0.02 * sin (of_int wl * 0.1))
      in Inr (max 0 intensity)))"

fun led_bins :: "int \<Rightarrow> int list \<Rightarrow> error + (int \<times> real) list" where
  "led_bins cct [] = Inr []"
| "led_bins cct (wl # wls) =
     bind_error (led_intensity cct wl) (\<lambda>intensity.
     bind_error (led_bins cct wls) (\<lambda>rest. Inr ((wl, intensity) # rest)))"

text \<open>
  \<^verbatim>\<open>generate_fake_spectrum\<close>. Here \<^verbatim>\<open>max\<close> has no guard for an empty list, where it
  raises \<^verbatim>\<open>ValueError\<close>.
\<close>

definition generate_fake_spectrum :: "int \<Rightarrow> error + (int \<times> real) list" where
  "generate_fake_spectrum cct =
     bind_error (led_bins cct (py_range 380 785 5)) (\<lambda>spectrum.
       if spectrum = [] then Inl ValueError else Inr (normalize_spectrum spectrum))"

definition generate_tm30_values :: "int \<Rightarrow> int \<times> int" where
  "generate_tm30_values cct =
     (let base_rf = 85;
          rf = (if cct \<le> 3000 then base_rf + 5
                else if cct \<le> 4000 then base_rf + 3
                else if cct \<le> 5000 then base_rf
                else base_rf - 2);
          rf = rf + py_int (sin (of_int cct * 0.001) * 3);
          rf = max 70 (min 95 rf);
          rg = 100 - py_int (of_int (cct - 4000) * 0.002);
          rg = max 95 (min 108 rg)
      in (rf, rg))"

text \<open>\<^verbatim>\<open>round(x, 4)\<close> on a float.\<close>

definition py_round4 :: "real \<Rightarrow> real" where
  "py_round4 x = of_int (round_half_even (x * 10 ^ 4)) / 10 ^ 4"

definition generate_cie_xy :: "int \<Rightarrow> error + real \<times> real" where
  "generate_cie_xy cct =
     bind_error
       (if cct < 4000 then
          bind_error (py_div (- 266123900) (of_int (cct ^ 3))) (\<lambda>t3.
          bind_error (py_div 234358.9 (of_int (cct ^ 2))) (\<lambda>t2.
          bind_error (py_div 877.6956 (of_int cct)) (\<lambda>t1.
          Inr (t3 - t2 + t1 + 0.179910))))
        else
          bind_error (py_div (- 3025846900) (of_int (cct ^ 3))) (\<lambda>t3.
          bind_error (py_div 2107037.9 (of_int (cct ^ 2))) (\<lambda>t2.
          bind_error (py_div 222.6347 (of_int cct)) (\<lambda>t1.
          Inr (t3 + t2 + t1 + 0.240390)))))
       (\<lambda>x.
          let y = (if cct < 2222 then - 1.1063814 * x ^ 3 - 1.34811020 * x ^ 2 + 2.18555832 * x - 0.20219683
                   else if cct < 4000 then - 0.9549476 * x ^ 3 - 1.37418593 * x ^ 2 + 2.09137015 * x - 0.16748867
                   else 3.0817580 * x ^ 3 - 5.87338670 * x ^ 2 + 3.75112997 * x - 0.37001483)
          in Inr (py_round4 x, py_round4 y))"

text \<open>
  \<^verbatim>\<open>generate_fake_photometry\<close>: one row per gamma angle, one cell per C-plane. The
  divisor \<^verbatim>\<open>2 * beam_width ** 2\<close> depends on the colour temperature.
\<close>

definition photometry_cell :: "int \<Rightarrow> int \<Rightarrow> int \<Rightarrow> error + real" where
  "photometry_cell cct gamma c =
     (let beam_width = 35 + of_int (cct - 3000) / 500 in
      bind_error (py_div (- (of_int (gamma ^ 2))) (2 * beam_width ^ 2)) (\<lambda>q.
      let intensity = 1000 * exp q;
          intensity = intensity * (1 + 0.02 * sin (radians (of_int (c * 4))))
      in Inr (max 0 intensity)))"

definition generate_fake_photometry :: "int \<Rightarrow> error + (real list list \<times> int list \<times> int list)" where
  "generate_fake_photometry cct =
     (let c_planes = py_range 0 91 15;
          gamma_angles = py_range 0 91 5 in
      bind_error
        (sequence_error (map (\<lambda>gamma. sequence_error (map (\<lambda>c. photometry_cell cct gamma c) c_planes))
                          gamma_angles))
        (\<lambda>intensities. Inr (intensities, c_planes, gamma_angles)))"

text \<open>The f-string that \<^verbatim>\<open>generate_iesxml_content\<close> returns, line by line.\<close>

definition iesxml_document ::
  "int \<Rightarrow> int \<Rightarrow> int \<Rightarrow> int \<Rightarrow> int \<Rightarrow> string \<Rightarrow> string \<Rightarrow> string \<Rightarrow> string" where
  \<open>iesxml_document cct wattage rf rg lumens intensity_data wavelengths_str values_str =
       ''<?xml version="1.0" encoding="UTF-8"?>\<newline>'' @
       ''<!--\<newline>'' @
       ''  IES TM-33-23 Complete Photometric Data File\<newline>'' @
       ''\<newline>'' @
       ''  This file contains EVERYTHING - it'' @ [CHR 0x27] @ ''s a complete replacement for IES/LDT:\<newline>'' @
       ''  - Angular photometric data (C/'' @ [CHR 0xCE, CHR 0xB3] @ '' intensity matrix)\<newline>'' @
       ''  - Spectral power distribution (380-780nm)\<newline>'' @
       ''  - Color metrics (CCT, CRI, TM-30 Rf/Rg, Duv)\<newline>'' @
       ''  - Luminaire metadata\<newline>'' @
       ''\<newline>'' @
       ''  CCT: '' @ py_str_int cct @ ''K | Rf: '' @ py_str_int rf @ '' | Rg: '' @ py_str_int rg @ '' | '' @ py_str_int wattage @ ''W | '' @ py_str_int lumens @ ''lm\<newline>'' @
       ''-->\<newline>'' @
       ''<IESTM33-22>\<newline>'' @
       ''    <Version>1.1</Version>\<newline>'' @
       ''    <Header>\<newline>'' @
       ''        <Manufacturer>AEC Illuminazione</Manufacturer>\<newline>'' @
       ''        <CatalogNumber>GA15-'' @ py_str_int cct @ ''K</CatalogNumber>\<newline>'' @
       ''        <Description>GA15 Industrial LED Module - '' @ py_str_int cct @ ''K CCT</Description>\<newline>'' @
       ''        <Laboratory>Demo Data Generator</Laboratory>\<newline>'' @
       ''        <ReportNumber>GA15-TM33-'' @ py_str_int cct @ ''K</ReportNumber>\<newline>'' @
       ''        <ReportDate>2024-01-15</ReportDate>\<newline>'' @
       ''        <DocumentCreator>GLDF Demo Generator</DocumentCreator>\<newline>'' @
       ''        <DocumentCreationDate>2024-01-15</DocumentCreationDate>\<newline>'' @
       ''    </Header>\<newline>'' @
       ''    <Luminaire>\<newline>'' @
       ''        <Dimensions>\<newline>'' @
       ''            <Length>300</Length>\<newline>'' @
       ''            <Width>300</Width>\<newline>'' @
       ''            <Height>120</Height>\<newline>'' @
       ''        </Dimensions>\<newline>'' @
       ''        <Mounting>Recessed</Mounting>\<newline>'' @
       ''        <NumEmitters>1</NumEmitters>\<newline>'' @
       ''    </Luminaire>\<newline>'' @
       ''    <Emitter>\<newline>'' @
       ''        <ID>led-'' @ py_str_int cct @ ''k</ID>\<newline>'' @
       ''        <Description>LED Module '' @ py_str_int cct @ ''K</Description>\<newline>'' @
       ''        <CatalogNumber>GA15-LED-'' @ py_str_int cct @ ''K</CatalogNumber>\<newline>'' @
       ''        <Quantity>1</Quantity>\<newline>'' @
       ''        <RatedLumens>'' @ py_str_int lumens @ ''</RatedLumens>\<newline>'' @
       ''        <InputWattage>'' @ py_str_int wattage @ ''</InputWattage>\<newline>'' @
       ''        <PowerFactor>0.95</PowerFactor>\<newline>'' @
       ''        <BallastFactor>1.0</BallastFactor>\<newline>'' @
       ''        <FixedCCT>'' @ py_str_int cct @ ''</FixedCCT>\<newline>'' @
       ''        <Duv>0.000</Duv>\<newline>'' @
       ''        <ColorRendering>\<newline>'' @
       ''            <Ra>90</Ra>\<newline>'' @
       ''            <R9>50</R9>\<newline>'' @
       ''            <Rf>'' @ py_str_int rf @ ''</Rf>\<newline>'' @
       ''            <Rg>'' @ py_str_int rg @ ''</Rg>\<newline>'' @
       ''        </ColorRendering>\<newline>'' @
       ''        <LuminousData>\<newline>'' @
       ''            <PhotometryType>CIE _ C</PhotometryType>\<newline>'' @
       ''            <Metric>Luminous</Metric>\<newline>'' @
       ''            <SymmType>Symm _ Quad</SymmType>\<newline>'' @
       ''            <Multiplier>1.0</Multiplier>\<newline>'' @
       intensity_data @ ''        </LuminousData>\<newline>'' @
       ''        <SpectralDistribution>\<newline>'' @
       ''            <Wavelengths>'' @ wavelengths_str @ ''</Wavelengths>\<newline>'' @
       ''            <Values>'' @ values_str @ ''</Values>\<newline>'' @
       ''        </SpectralDistribution>\<newline>'' @
       ''    </Emitter>\<newline>'' @
       ''</IESTM33-22>\<newline>''\<close>

text \<open>
  \<^verbatim>\<open>generate_iesxml_content(cct, wattage)\<close>. The intensity lines are written gamma by
  gamma and, inside, C-plane by C-plane.
\<close>

definition iesxml_intensity_data :: "real list list \<Rightarrow> int list \<Rightarrow> int list \<Rightarrow> string" where
  \<open>iesxml_intensity_data intensities c_planes gamma_angles =
     concat (map (\<lambda>(gamma_idx, gamma).
       concat (map (\<lambda>(c_idx, c).
         ''            <IntensityData horz="'' @ py_str_int c @ ''" vert="'' @ py_str_int gamma @ ''">'' @
         py_format_f 1 (intensities ! gamma_idx ! c_idx) @ ''</IntensityData>\<newline>'')
         (enumerate 0 c_planes)))
       (enumerate 0 gamma_angles))\<close>

definition generate_iesxml_content :: "int \<Rightarrow> int \<Rightarrow> error + string" where
  "generate_iesxml_content cct wattage =
     bind_error (generate_fake_spectrum cct) (\<lambda>spectrum.
     let (rf, rg) = generate_tm30_values cct in
     bind_error (generate_cie_xy cct) (\<lambda>(x, y).
     bind_error (generate_fake_photometry cct) (\<lambda>(intensities, c_planes, gamma_angles).
     let efficacy = 150 - of_int (wattage - 30) * 0.3;
         lumens = py_int (of_int wattage * efficacy);
         wavelengths_str = py_join '' '' (map (\<lambda>(wl, _). py_str_int wl) spectrum);
         values_str = py_join '' '' (map (\<lambda>(_, intensity). py_format_f 4 intensity) spectrum);
         intensity_data = iesxml_intensity_data intensities c_planes gamma_angles
     in Inr (iesxml_document cct wattage rf rg lumens intensity_data wavelengths_str values_str))))"

section \<open>The shape of a spectral curve\<close>

text \<open>
  The specification's \<^emph>\<open>SpectralCurve\<close>: 81 samples at 380, 385, ..., 780 nm in ascending
  order, no negative intensity, and the largest intensity 1 unless every intensity is 0.
\<close>

definition spectral_curve_ok :: "(int \<times> real) list \<Rightarrow> bool" where
  "spectral_curve_ok sp \<longleftrightarrow>
     length sp = 81 \<and> map fst sp = map (\<lambda>i. 380 + 5 * int i) [0..<81]
     \<and> (\<forall>p \<in> set sp. 0 \<le> snd p)
     \<and> (Max (set (map snd sp)) = 1 \<or> (\<forall>p \<in> set sp. snd p = 0))"

section \<open>Properties of temperature estimation and of the catalogue loader\<close>

lemma py_int_of_int: "py_int (of_int k) = k"
  by (simp add: py_int_def)

lemma startswith_single: "py_startswith s [c] = (case s of [] \<Rightarrow> False | d # _ \<Rightarrow> d = c)"
  by (cases s) (simp_all add: py_startswith_def)

lemma bind_error_Inr_iff:
  "bind_error r f = Inr y \<longleftrightarrow> (\<exists>v. r = Inr v \<and> f v = Inr y)"
  by (cases r) (simp_all add: bind_error_def)

text \<open>
  Claim C7. Without a colour index, \<^verbatim>\<open>Star.temperature\<close> is the table value of the
  leading letter of the spectral classification (read after \<^verbatim>\<open>upper()\<close>), and 5500 when
  the classification is empty or its leading letter is not in the table. With a colour
  index \<open>bv\<close> it is the piecewise-linear value of \<open>bv\<close>, which \<^verbatim>\<open>int()\<close> truncates to
  the integer the property returns.
\<close>

theorem temperature_spec:
  "temperature s =
     (case color_index s of
        Some bv \<Rightarrow> py_int (spec_bv_kelvin bv)
      | None \<Rightarrow>
          (case spectral_type s of
             [] \<Rightarrow> 5500
           | c # _ \<Rightarrow> (case spec_letter_kelvin (py_upper_char c) of Some k \<Rightarrow> k | None \<Rightarrow> 5500)))"
proof (cases "color_index s")
  case None
  then show ?thesis
    by (cases "spectral_type s")
       (simp_all add: temperature_def startswith_single py_upper_def spec_letter_kelvin_def)
next
  case (Some bv)
  have "py_int 30000 = 30000" "py_int 3000 = 3000"
    using py_int_of_int[of 30000] py_int_of_int[of 3000] by simp_all
  with Some show ?thesis
    by (simp add: temperature_def spec_bv_kelvin_def)
qed

text \<open>
  On the catalogue path the magnitude limit is applied row by row: every star the loop
  appends has a magnitude at most the limit.
\<close>

lemma parse_row_mag_le:
  "parse_row pfloat pint mag_limit oid r = Inr (Some s) \<Longrightarrow> mag s \<le> mag_limit"
  by (auto simp: parse_row_def bind_error_Inr_iff Let_def split: if_splits)

lemma load_rows_mag_le:
  "load_rows pfloat pint new_id mag_limit k rs = Inr stars \<Longrightarrow> \<forall>s \<in> set stars. mag s \<le> mag_limit"
proof (induction rs arbitrary: k stars)
  case Nil
  then show ?case by simp
next
  case (Cons r rs)
  show ?case
  proof (cases "parse_row pfloat pint mag_limit (new_id k) r")
    case (Inl e)
    with Cons show ?thesis by (cases e) auto
  next
    case (Inr so)
    show ?thesis
    proof (cases so)
      case None
      with Inr Cons show ?thesis by auto
    next
      case (Some s)
      with Inr Cons.prems obtain rest where
        rest: "load_rows pfloat pint new_id mag_limit (Suc k) rs = Inr rest" and st: "stars = s # rest"
        by (auto simp: bind_error_Inr_iff)
      from Some Inr have "mag s \<le> mag_limit" by (simp add: parse_row_mag_le)
      with Cons.IH[OF rest] st show ?thesis by simp
    qed
  qed
qed

text \<open>
  Claim C2. The fallback path does not apply the magnitude ceiling: with no catalogue
  resource and the ceiling 1, \<^verbatim>\<open>load_hyg_catalogue\<close> returns all 15 fallback stars, among
  them Polaris of magnitude 2.02.
\<close>

theorem fallback_ignores_mag_limit:
  "load_hyg_catalogue pfloat pint new_id None 1 = Inr (get_fallback_stars new_id)
   \<and> length (get_fallback_stars new_id) = 15
   \<and> name (get_fallback_stars new_id ! 14) = ''Polaris''
   \<and> mag (get_fallback_stars new_id ! 14) = 2.02
   \<and> \<not> mag (get_fallback_stars new_id ! 14) \<le> 1"
  by (simp add: load_hyg_catalogue_def get_fallback_stars_def BRIGHT_STARS_def enumerate_eq_zip)

section \<open>Properties of the two spectrum generators\<close>

lemma py_range_380: "py_range 380 781 5 = map (\<lambda>i. 380 + 5 * int i) [0..<81]"
  by (simp add: py_range_def)

lemma planck_bin_cases:
  "planck_bin T wl = Inl ZeroDivisionError \<or> (\<exists>v. planck_bin T wl = Inr v)"
  by (auto simp: planck_bin_def bind_error_def py_div_def Let_def split: sum.splits if_splits)

lemma star_intensity_total:
  "star_intensity T wl = Inr (case planck_bin T wl of Inl e \<Rightarrow> 0 | Inr v \<Rightarrow> v)"
  using planck_bin_cases[of T wl] by (auto simp: star_intensity_def)

lemma star_bins_total:
  "star_bins T wls = Inr (map (\<lambda>wl. (wl, case planck_bin T wl of Inl e \<Rightarrow> 0 | Inr v \<Rightarrow> v)) wls)"
  by (induction wls) (simp_all add: star_intensity_total bind_error_def)

lemma generate_star_spectrum_eq:
  "generate_star_spectrum T =
     Inr (normalize_spectrum
           (map (\<lambda>wl. (wl, case planck_bin T wl of Inl e \<Rightarrow> 0 | Inr v \<Rightarrow> v)) (py_range 380 781 5)))"
  by (simp add: generate_star_spectrum_def star_bins_total bind_error_def)

lemma map_fst_normalize: "map fst (normalize_spectrum sp) = map fst sp"
  by (auto simp: normalize_spectrum_def Let_def)

lemma bin_struct:
  "bind_error (py_div n d) (\<lambda>e. if e > 700 then Inr 0
       else bind_error (py_div 1 w) (\<lambda>a. py_div a (exp e - 1))) =
   (if d = 0 then Inl ZeroDivisionError
    else if n / d > 700 then Inr 0
    else if w = 0 then Inl ZeroDivisionError
    else if exp (n / d) - 1 = 0 then Inl ZeroDivisionError
    else Inr (1 / w / (exp (n / d) - 1)))"
  by (simp add: py_div_def bind_error_def)

lemma planck_bin_eq:
  "planck_bin T wl =
   (if of_int wl * (1 / 10 ^ 9) * boltzmann_k * of_int T = (0::real) then Inl ZeroDivisionError
    else if planck_h * light_c / (of_int wl * (1 / 10 ^ 9) * boltzmann_k * of_int T) > 700 then Inr 0
    else if (of_int wl * (1 / 10 ^ 9)) ^ 5 = (0::real) then Inl ZeroDivisionError
    else if exp (planck_h * light_c / (of_int wl * (1 / 10 ^ 9) * boltzmann_k * of_int T)) - 1 = 0
      then Inl ZeroDivisionError
    else Inr (1 / (of_int wl * (1 / 10 ^ 9)) ^ 5 /
              (exp (planck_h * light_c / (of_int wl * (1 / 10 ^ 9) * boltzmann_k * of_int T)) - 1)))"
  unfolding planck_bin_def Let_def by (rule bin_struct)

lemma planck_bin_nonneg:
  assumes "0 \<le> T" "0 < wl"
  shows "(case planck_bin T wl of Inl e \<Rightarrow> 0 | Inr v \<Rightarrow> v) \<ge> 0"
proof (cases "T = 0")
  case True
  then show ?thesis by (simp add: planck_bin_eq)
next
  case False
  with assms have T: "0 < T" by simp
  let ?wl_m = "of_int wl * (1 / 10 ^ 9) :: real"
  let ?d = "?wl_m * boltzmann_k * of_int T"
  let ?ex = "planck_h * light_c / ?d"
  have wl_m: "0 < ?wl_m" using assms by simp
  have den: "0 < ?d" using wl_m T by (simp add: boltzmann_k_def)
  have ex: "0 < ?ex" using den by (simp add: planck_h_def light_c_def)
  have e1: "0 < exp ?ex - 1" using ex by simp
  have w5: "0 < ?wl_m ^ 5" using wl_m by (rule zero_less_power)
  have "0 \<le> 1 / ?wl_m ^ 5 / (exp ?ex - 1)"
    using w5 e1 by (intro divide_nonneg_pos divide_nonneg_pos) simp_all
  then show ?thesis
    unfolding planck_bin_eq using den w5 e1 by (simp only: if_False sum.case split: if_split) auto
qed

lemma planck_bin_negative:
  assumes "T < 0" "0 < wl"
  shows "\<exists>v. planck_bin T wl = Inr v \<and> v < 0"
proof -
  let ?wl_m = "of_int wl * (1 / 10 ^ 9) :: real"
  let ?d = "?wl_m * boltzmann_k * of_int T"
  let ?ex = "planck_h * light_c / ?d"
  have wl_m: "0 < ?wl_m" using assms by simp
  have "0 < ?wl_m * boltzmann_k" using wl_m by (simp add: boltzmann_k_def)
  then have den: "?d < 0"
    using assms by (intro mult_pos_neg) simp_all
  have "0 < planck_h * light_c" by (simp add: planck_h_def light_c_def)
  then have ex: "?ex < 0" using den by (rule divide_pos_neg)
  then have e1: "exp ?ex - 1 < 0" by simp
  have w5: "0 < ?wl_m ^ 5" using wl_m by (rule zero_less_power)
  then have "0 < 1 / ?wl_m ^ 5" by simp
  then have neg: "1 / ?wl_m ^ 5 / (exp ?ex - 1) < 0" using e1 by (rule divide_pos_neg)
  have c1: "?d \<noteq> 0" using den by linarith
  have c2: "\<not> ?ex > 700" using ex by simp
  have c3: "?wl_m ^ 5 \<noteq> 0" using w5 by linarith
  have c4: "exp ?ex - 1 \<noteq> 0" using e1 by linarith
  have "planck_bin T wl = Inr (1 / ?wl_m ^ 5 / (exp ?ex - 1))"
    unfolding planck_bin_eq using c1 c2 c3 c4 by (simp only: if_False)
  with neg show ?thesis by blast
qed

lemma normalize_nonneg:
  assumes "sp \<noteq> []" "\<forall>p \<in> set sp. 0 \<le> snd p"
  shows "(\<forall>p \<in> set (normalize_spectrum sp). 0 \<le> snd p)
         \<and> (Max (set (map snd (normalize_spectrum sp))) = 1 \<or> (\<forall>p \<in> set (normalize_spectrum sp). snd p = 0))"
proof -
  define M where "M = Max (set (map snd sp))"
  have fin: "finite (set (map snd sp))" and ne: "set (map snd sp) \<noteq> {}"
    using assms by simp_all
  have M_in: "M \<in> set (map snd sp)" unfolding M_def using fin ne by (rule Max_in)
  have M_ge: "\<And>p. p \<in> set sp \<Longrightarrow> snd p \<le> M"
    unfolding M_def using fin by (simp add: Max_ge)
  show ?thesis
  proof (cases "0 < M")
    case True
    then have norm: "normalize_spectrum sp = map (\<lambda>(wl, i). (wl, i / M)) sp"
      using assms by (simp add: normalize_spectrum_def M_def)
    have snd_norm: "map snd (normalize_spectrum sp) = map (\<lambda>p. snd p / M) sp"
      by (simp add: norm case_prod_beta)
    have nonneg: "\<forall>p \<in> set (normalize_spectrum sp). 0 \<le> snd p"
      using assms True by (auto simp: norm)
    have "Max (set (map snd (normalize_spectrum sp))) = 1"
    proof (rule Max_eqI)
      show "finite (set (map snd (normalize_spectrum sp)))" by simp
      show "y \<le> 1" if "y \<in> set (map snd (normalize_spectrum sp))" for y
        using that True M_ge by (auto simp: snd_norm)
      from M_in obtain p where "p \<in> set sp" "snd p = M" by auto
      then have "M / M \<in> set (map snd (normalize_spectrum sp))"
        unfolding snd_norm by force
      then show "1 \<in> set (map snd (normalize_spectrum sp))" using True by simp
    qed
    with nonneg show ?thesis by simp
  next
    case False
    then have same: "normalize_spectrum sp = sp"
      using assms by (simp add: normalize_spectrum_def M_def)
    have "snd p = 0" if "p \<in> set sp" for p
      using M_ge[OF that] assms(2) that False by force
    with same assms show ?thesis by simp
  qed
qed

lemma normalize_nonpositive:
  assumes "\<forall>p \<in> set sp. snd p \<le> 0"
  shows "normalize_spectrum sp = sp"
proof (cases "sp = []")
  case True
  then show ?thesis by (simp add: normalize_spectrum_def)
next
  case False
  then have "finite (set (map snd sp))" "set (map snd sp) \<noteq> {}" by simp_all
  then have "\<not> 0 < Max (set (map snd sp))"
    using assms by (subst Max_gr_iff) (auto simp: not_less)
  with False show ?thesis by (simp add: normalize_spectrum_def)
qed

lemma led_width_zero_iff: "(80 + of_int (cct - 3000) * 0.01 = (0::real)) \<longleftrightarrow> cct = - 5000"
proof -
  have "(80 + of_int (cct - 3000) * 0.01 = (0::real)) \<longleftrightarrow> (of_int cct :: real) = of_int (- 5000)"
    by (simp add: field_simps eq_neg_iff_add_eq_0)
  also have "\<dots> \<longleftrightarrow> cct = - 5000" by (simp only: of_int_eq_iff)
  finally show ?thesis .
qed

lemma ripple_pos: "- 1 \<le> (s::real) \<Longrightarrow> 0 < 1 + 0.02 * s"
  by simp

lemma led_intensity_pos:
  assumes "cct \<noteq> - 5000"
  shows "\<exists>v. led_intensity cct wl = Inr v \<and> 0 < v"
proof -
  let ?pw = "80 + of_int (cct - 3000) * 0.01 :: real"
  let ?blue = "0.6 * exp (- ((of_int wl - 450) ^ 2) / (2 * 15 ^ 2)) :: real"
  let ?q = "- ((of_int wl - (580 - of_int (cct - 4000) * 0.02)) ^ 2) / (2 * ?pw ^ 2) :: real"
  let ?red = "(if cct \<le> 4000
             then (of_int (4000 - cct) / 3000) * 0.4 * exp (- ((of_int wl - 620) ^ 2) / (2 * 40 ^ 2))
             else 0) :: real"
  let ?f = "1 + 0.02 * sin (of_int wl * 0.1) :: real"
  have pw: "2 * ?pw ^ 2 \<noteq> 0" using assms led_width_zero_iff[of cct] by simp
  have blue: "0 < ?blue" by simp
  have ph: "0 < 0.8 * exp ?q" by simp
  have red: "0 \<le> ?red" by simp
  have f: "0 < ?f" by (rule ripple_pos) (rule sin_ge_minus_one)
  have "0 < ?blue + 0.8 * exp ?q + ?red" using blue ph red by linarith
  then have pos: "0 < (?blue + 0.8 * exp ?q + ?red) * ?f" using f by (rule mult_pos_pos)
  have "led_intensity cct wl = Inr (max 0 ((?blue + 0.8 * exp ?q + ?red) * ?f))"
    unfolding led_intensity_def Let_def py_div_def bind_error_def using pw
    by (simp only: if_False sum.case)
  with pos show ?thesis by (simp add: max_def)
qed

lemma led_bins_pos:
  assumes "cct \<noteq> - 5000"
  shows "\<exists>sp. led_bins cct wls = Inr sp \<and> map fst sp = wls \<and> (\<forall>p \<in> set sp. 0 < snd p)"
proof (induction wls)
  case Nil
  then show ?case by simp
next
  case (Cons wl wls)
  from led_intensity_pos[OF assms, of wl] obtain v where v: "led_intensity cct wl = Inr v" "0 < v"
    by blast
  from Cons obtain sp where "led_bins cct wls = Inr sp" "map fst sp = wls" "\<forall>p \<in> set sp. 0 < snd p"
    by blast
  with v show ?case by (simp add: bind_error_def)
qed

lemma led_zero_width: "led_intensity (- 5000) wl = Inl ZeroDivisionError"
  by (simp add: led_intensity_def py_div_def bind_error_def)

lemma py_range_380_785: "py_range 380 785 5 = map (\<lambda>i. 380 + 5 * int i) [0..<81]"
  by (simp add: py_range_def)

lemma generate_fake_spectrum_raises: "generate_fake_spectrum (- 5000) = Inl ZeroDivisionError"
proof -
  have "[0..<81] = 0 # [1..<81]" by (simp add: upt_rec)
  then show ?thesis
    by (simp add: generate_fake_spectrum_def py_range_380_785 led_zero_width bind_error_def)
qed

lemma sequence_error_map_Inr:
  assumes "\<And>x. x \<in> set xs \<Longrightarrow> f x = Inr (g x)"
  shows "sequence_error (map f xs) = Inr (map g xs)"
  using assms by (induction xs) (simp_all add: bind_error_def)

lemma beam_width_zero_iff: "(35 + of_int (cct - 3000) / 500 = (0::real)) \<longleftrightarrow> cct = - 14500"
proof -
  have "(35 + of_int (cct - 3000) / 500 = (0::real)) \<longleftrightarrow> (of_int cct :: real) = of_int (- 14500)"
    by (simp add: field_simps eq_neg_iff_add_eq_0)
  also have "\<dots> \<longleftrightarrow> cct = - 14500" by (simp only: of_int_eq_iff)
  finally show ?thesis .
qed

lemma photometry_cell_Inr:
  assumes "cct \<noteq> - 14500"
  shows "\<exists>v. photometry_cell cct gamma c = Inr v"
proof -
  have "2 * (35 + of_int (cct - 3000) / 500 :: real) ^ 2 \<noteq> 0"
    using assms beam_width_zero_iff[of cct] by simp
  then show ?thesis
    unfolding photometry_cell_def Let_def py_div_def bind_error_def by (simp only: if_False sum.case) blast
qed

lemma generate_fake_photometry_Inr:
  assumes "cct \<noteq> - 14500"
  shows "\<exists>r. generate_fake_photometry cct = Inr r"
proof -
  define g where "g gamma c = projr (photometry_cell cct gamma c)" for gamma c
  have cell: "photometry_cell cct gamma c = Inr (g gamma c)" for gamma c
    using photometry_cell_Inr[OF assms, of gamma c] by (auto simp: g_def)
  have row: "sequence_error (map (\<lambda>c. photometry_cell cct gamma c) cs) = Inr (map (g gamma) cs)" for gamma cs
    by (rule sequence_error_map_Inr) (simp add: cell)
  have "sequence_error (map (\<lambda>gamma. sequence_error (map (\<lambda>c. photometry_cell cct gamma c) cs)) gs)
        = Inr (map (\<lambda>gamma. map (g gamma) cs) gs)" for cs gs
    by (rule sequence_error_map_Inr) (simp add: row)
  then show ?thesis by (simp add: generate_fake_photometry_def Let_def bind_error_def)
qed

lemma generate_cie_xy_Inr:
  assumes "cct \<noteq> 0"
  shows "\<exists>r. generate_cie_xy cct = Inr r"
  using assms by (simp add: generate_cie_xy_def py_div_def bind_error_def Let_def)

lemma generate_fake_spectrum_Inr:
  assumes "cct \<noteq> - 5000"
  shows "\<exists>raw. generate_fake_spectrum cct = Inr (normalize_spectrum raw) \<and> led_bins cct (py_range 380 785 5) = Inr raw
     \<and> map fst raw = py_range 380 785 5 \<and> (\<forall>p \<in> set raw. 0 < snd p)"
proof -
  from led_bins_pos[OF assms, of "py_range 380 785 5"] obtain raw where
    raw: "led_bins cct (py_range 380 785 5) = Inr raw" "map fst raw = py_range 380 785 5"
         "\<forall>p \<in> set raw. 0 < snd p" by blast
  have "py_range 380 785 5 \<noteq> []" by (simp add: py_range_380_785)
  with raw(2) have "raw \<noteq> []" by auto
  with raw show ?thesis by (simp add: generate_fake_spectrum_def bind_error_def)
qed

lemma iesxml_document_nonempty: "iesxml_document cct w rf rg lm a b c \<noteq> []"
  by (simp add: iesxml_document_def)

lemma generate_iesxml_content_Inr:
  assumes "cct \<noteq> - 5000" "cct \<noteq> 0" "cct \<noteq> - 14500"
  shows "\<exists>text. generate_iesxml_content cct wattage = Inr text \<and> text \<noteq> []"
proof -
  from generate_fake_spectrum_Inr[OF assms(1)] obtain sp where sp: "generate_fake_spectrum cct = Inr sp"
    by blast
  from generate_cie_xy_Inr[OF assms(2)] obtain x y where xy: "generate_cie_xy cct = Inr (x, y)"
    by force
  from generate_fake_photometry_Inr[OF assms(3)] obtain i cs gs where
    ph: "generate_fake_photometry cct = Inr (i, cs, gs)" by (metis prod_cases3)
  show ?thesis
    by (simp add: generate_iesxml_content_def sp xy ph bind_error_def Let_def
          iesxml_document_nonempty split: prod.splits)
qed

section \<open>The claims on spectral curves\<close>

lemma py_range_pos: "wl \<in> set (py_range 380 stop 5) \<Longrightarrow> 0 < wl"
  by (auto simp: py_range_def)

lemma spectral_curve_ok_normalize:
  assumes "map fst raw = map (\<lambda>i. 380 + 5 * int i) [0..<81]" "\<forall>p \<in> set raw. 0 \<le> snd p"
  shows "spectral_curve_ok (normalize_spectrum raw)"
proof -
  from assms(1) have len: "length raw = 81" by (metis length_map length_upt diff_zero)
  then have ne: "raw \<noteq> []" by auto
  from len have "length (normalize_spectrum raw) = 81"
    by (metis length_map map_fst_normalize)
  with normalize_nonneg[OF ne assms(2)] assms(1) show ?thesis
    by (simp add: spectral_curve_ok_def map_fst_normalize)
qed

text \<open>
  Claim C5, as amended. For every temperature that is not negative the blackbody curve,
  and for every colour temperature other than -5000 the LED curve, is returned and is a
  spectral curve of the specified shape: 81 samples at 380, 385, ..., 780 nm, no negative
  intensity, and maximum 1 unless all intensities are 0.
\<close>

theorem spectral_curve_shape:
  "(0 \<le> temp \<longrightarrow> (\<exists>sp. generate_star_spectrum temp = Inr sp \<and> spectral_curve_ok sp))
   \<and> (cct \<noteq> - 5000 \<longrightarrow> (\<exists>sp. generate_fake_spectrum cct = Inr sp \<and> spectral_curve_ok sp))"
proof (intro conjI impI)
  assume T: "0 \<le> temp"
  let ?raw = "map (\<lambda>wl. (wl, case planck_bin temp wl of Inl e \<Rightarrow> 0 | Inr v \<Rightarrow> v)) (py_range 380 781 5)"
  have fst: "map fst ?raw = map (\<lambda>i. 380 + 5 * int i) [0..<81]"
    by (simp add: py_range_380 comp_def)
  have "\<forall>p \<in> set ?raw. 0 \<le> snd p"
    using planck_bin_nonneg[OF T] py_range_pos by auto
  with fst have "spectral_curve_ok (normalize_spectrum ?raw)"
    by (rule spectral_curve_ok_normalize)
  then show "\<exists>sp. generate_star_spectrum temp = Inr sp \<and> spectral_curve_ok sp"
    by (simp add: generate_star_spectrum_eq)
next
  assume "cct \<noteq> - 5000"
  from generate_fake_spectrum_Inr[OF this] obtain raw where
    raw: "generate_fake_spectrum cct = Inr (normalize_spectrum raw)"
         "map fst raw = py_range 380 785 5" "\<forall>p \<in> set raw. 0 < snd p" by blast
  from raw(3) have "\<forall>p \<in> set raw. 0 \<le> snd p" by (simp add: less_imp_le)
  with raw(2) have "spectral_curve_ok (normalize_spectrum raw)"
    by (intro spectral_curve_ok_normalize) (simp_all add: py_range_380_785)
  with raw(1) show "\<exists>sp. generate_fake_spectrum cct = Inr sp \<and> spectral_curve_ok sp" by simp
qed

text \<open>
  The theorem at the temperature 5500 and the colour temperature 3000.
\<close>

theorem spectral_curve_shape_witness:
  "(0::int) \<le> 5500 \<and> (\<exists>sp. generate_star_spectrum 5500 = Inr sp \<and> spectral_curve_ok sp)
   \<and> (3000::int) \<noteq> - 5000 \<and> (\<exists>sp. generate_fake_spectrum 3000 = Inr sp \<and> spectral_curve_ok sp)"
  using spectral_curve_shape[of 5500 3000] by simp

lemma star_spectrum_negative:
  assumes "temp < 0"
  shows "\<exists>sp. generate_star_spectrum temp = Inr sp \<and> length sp = 81 \<and> list_all (\<lambda>p. snd p < 0) sp"
proof -
  let ?raw = "map (\<lambda>wl. (wl, case planck_bin temp wl of Inl e \<Rightarrow> 0 | Inr v \<Rightarrow> v)) (py_range 380 781 5)"
  have neg: "\<forall>p \<in> set ?raw. snd p < 0"
    using planck_bin_negative[OF assms] py_range_pos by fastforce
  then have "\<forall>p \<in> set ?raw. snd p \<le> 0" by (simp add: less_imp_le)
  then have "normalize_spectrum ?raw = ?raw" by (rule normalize_nonpositive)
  moreover have "length ?raw = 81" by (simp add: py_range_380)
  ultimately show ?thesis using neg
    by (simp only: generate_star_spectrum_eq list_all_iff) blast
qed

text \<open>
  Claim C5 as stated fails outside that range: at the temperature -1 the first sample of
  the blackbody curve is negative, and at the colour temperature -5000 the LED generator
  raises \<^verbatim>\<open>ZeroDivisionError\<close> (the phosphor width is 0).
\<close>

theorem spectral_curve_shape_counterexample:
  "(\<exists>sp. generate_star_spectrum (- 1) = Inr sp \<and> snd (hd sp) < 0)
   \<and> generate_fake_spectrum (- 5000) = Inl ZeroDivisionError"
proof -
  from star_spectrum_negative[of "- 1"] obtain sp where
    sp: "generate_star_spectrum (- 1) = Inr sp" "length sp = 81" "list_all (\<lambda>p. snd p < 0) sp"
    by auto
  from sp(2) have "sp \<noteq> []" by auto
  with sp(3) have "snd (hd sp) < 0" by (cases sp) simp_all
  with sp(1) show ?thesis by (simp add: generate_fake_spectrum_raises)
qed

text \<open>
  Claim C8 as stated fails at the temperature -5000: the curve is entirely negative, and it
  is returned as it is, not as an all-zero curve.
\<close>

theorem star_spectrum_nonpositive_counterexample:
  "\<exists>sp. generate_star_spectrum (- 5000) = Inr sp \<and> length sp = 81 \<and> list_all (\<lambda>p. snd p < 0) sp"
  by (rule star_spectrum_negative) simp

text \<open>
  Claim C8, as amended. For every integer temperature \<^verbatim>\<open>generate_star_spectrum\<close> returns
  81 samples and raises nothing: an exception in a bin is replaced by the intensity 0, a
  Planck exponent above 700 gives the intensity 0, and a curve with no positive intensity is
  returned unchanged (it is not divided by its maximum, and it is not set to zero).
\<close>

theorem star_spectrum_never_raises:
  "\<exists>raw. star_bins temp (py_range 380 781 5) = Inr raw
     \<and> length raw = 81
     \<and> map fst raw = py_range 380 781 5
     \<and> map snd raw = map (\<lambda>wl. case planck_bin temp wl of Inl e \<Rightarrow> 0 | Inr v \<Rightarrow> v) (py_range 380 781 5)
     \<and> generate_star_spectrum temp = Inr (normalize_spectrum raw)
     \<and> ((\<forall>p \<in> set raw. snd p \<le> 0) \<longrightarrow> normalize_spectrum raw = raw)
     \<and> (\<forall>wl e. py_div (planck_h * light_c) (of_int wl * (1 / 10 ^ 9) * boltzmann_k * of_int temp) = Inr e
           \<and> 700 < e \<longrightarrow> planck_bin temp wl = Inr 0)"
proof -
  let ?raw = "map (\<lambda>wl. (wl, case planck_bin temp wl of Inl e \<Rightarrow> 0 | Inr v \<Rightarrow> v)) (py_range 380 781 5)"
  have "star_bins temp (py_range 380 781 5) = Inr ?raw" by (rule star_bins_total)
  moreover have "length ?raw = 81" by (simp add: py_range_380)
  moreover have "map fst ?raw = py_range 380 781 5" by (simp add: comp_def)
  moreover have "map snd ?raw =
      map (\<lambda>wl. case planck_bin temp wl of Inl e \<Rightarrow> 0 | Inr v \<Rightarrow> v) (py_range 380 781 5)"
    by (simp add: comp_def)
  moreover have "generate_star_spectrum temp = Inr (normalize_spectrum ?raw)"
    by (rule generate_star_spectrum_eq)
  moreover have "(\<forall>p \<in> set ?raw. snd p \<le> 0) \<longrightarrow> normalize_spectrum ?raw = ?raw"
    using normalize_nonpositive by blast
  moreover have "\<forall>wl e. py_div (planck_h * light_c) (of_int wl * (1 / 10 ^ 9) * boltzmann_k * of_int temp) = Inr e
           \<and> 700 < e \<longrightarrow> planck_bin temp wl = Inr 0"
    by (auto simp: planck_bin_def Let_def bind_error_def)
  ultimately show ?thesis by blast
qed

text \<open>
  The theorem at the temperature 0, where every bin divides by zero and the curve of 81
  zeros is returned unchanged, and at the temperature 1 and 380 nm, where the exponent is
  above 700.
\<close>

theorem star_spectrum_never_raises_witness:
  "generate_star_spectrum 0 = Inr (map (\<lambda>wl. (wl, 0)) (py_range 380 781 5))
   \<and> planck_bin 1 380 = Inr 0"
proof -
  from star_spectrum_never_raises[of 0] obtain raw where
    raw: "map fst raw = py_range 380 781 5"
         "map snd raw = map (\<lambda>wl. case planck_bin 0 wl of Inl e \<Rightarrow> 0 | Inr v \<Rightarrow> v) (py_range 380 781 5)"
         "generate_star_spectrum 0 = Inr (normalize_spectrum raw)"
         "(\<forall>p \<in> set raw. snd p \<le> 0) \<longrightarrow> normalize_spectrum raw = raw"
    by blast
  have zero: "(case planck_bin 0 wl of Inl e \<Rightarrow> 0 | Inr v \<Rightarrow> v) = 0" for wl
    by (simp add: planck_bin_eq)
  have "raw = zip (map fst raw) (map snd raw)" by (simp add: zip_map_fst_snd)
  also have "\<dots> = map (\<lambda>wl. (wl, 0)) (py_range 380 781 5)"
    unfolding raw(1,2) by (simp add: zero zip_map2 zip_same_conv_map)
  finally have raw_eq: "raw = map (\<lambda>wl. (wl, 0)) (py_range 380 781 5)" .
  then have "\<forall>p \<in> set raw. snd p \<le> 0" by auto
  with raw(4) have "normalize_spectrum raw = raw" by blast
  with raw(3) raw_eq have g: "generate_star_spectrum 0 = Inr (map (\<lambda>wl. (wl, 0)) (py_range 380 781 5))"
    by simp
  have "py_div (planck_h * light_c) (of_int 380 * (1 / 10 ^ 9) * boltzmann_k * of_int 1)
          = Inr (planck_h * light_c / (of_int 380 * (1 / 10 ^ 9) * boltzmann_k * of_int 1))
        \<and> 700 < planck_h * light_c / (of_int 380 * (1 / 10 ^ 9) * boltzmann_k * of_int 1)"
    by (simp add: py_div_def planck_h_def light_c_def boltzmann_k_def)
  with star_spectrum_never_raises[of 1] have "planck_bin 1 380 = Inr 0" by blast
  with g show ?thesis by simp
qed



end
